theory Spec2Isabelle
  imports Main "HOL-Library.AList"
begin

section \<open>The script \<^verbatim>\<open>update_landing.py\<close>\<close>

text \<open>
  The script consists of an import, two assignments and one \<^verbatim>\<open>with\<close> statement:
  \<^verbatim>\<open>
  import os
  file_path = '/Users/bizer/Development/Projects/ChatSQL/ChatSQL-ui/src/pages/ChatSQLLanding.tsx'
  new_content = """import { ArrowRight, ... export default ChatSQLLanding;\n"""
  with open(file_path, 'w') as f:
      f.write(new_content)
  \<close>
  A Python \<^verbatim>\<open>str\<close> is a sequence of code points. Every code point of the two
  literals is below 256, so a \<^typ>\<open>string\<close> holds them one \<^typ>\<open>char\<close> each; the only
  one beyond ASCII is the copyright sign U+00A9 in the footer, written \<^term>\<open>CHR 0xA9\<close>.
\<close>

subsection \<open>The two constants\<close>

type_synonym path = string

definition file_path :: path where
  "file_path = ''/Users/bizer/Development/Projects/ChatSQL/ChatSQL-ui/src/pages/ChatSQLLanding.tsx''"

text \<open>
  The triple-quoted literal of source lines 6 to 366, cut after every nineteenth line
  into consecutive pieces (\<open>new_content_a_b\<close> holds source lines \<open>a\<close> to \<open>b\<close>, each with
  its line feed) so that every term stays small; \<open>new_content\<close> is their concatenation.
\<close>

definition new_content_006_024 :: string where
  \<open>new_content_006_024 =
''import { ArrowRight, Check, Database, Zap, Shield, Code, Cpu, Server, Layers, Terminal, Sparkles, Lock, GitBranch, Search, ChevronDown } from 'lucide-react';
import { useEffect } from 'react';
import { motion, useMotionTemplate, useMotionValue, animate } from 'framer-motion';
import { Link } from 'react-router-dom';

// Import logos
import amazonLogo from '../public/amazon.png';
import coinbaseLogo from '../public/coinbase.png';
import googleLogo from '../public/google.png';
import microsoftLogo from '../public/microsoft.png';
import nikeLogo from '../public/nike.png';

// --- Components ---

const SquareGrid = () => {
  const x = useMotionValue(50);
  const y = useMotionValue(50);

  useEffect(() => {
''\<close>

definition new_content_025_043 :: string where
  \<open>new_content_025_043 =
''    const controlsX = animate(x, [0, 100, 50, 20, 80, 0], {
      duration: 35,
      repeat: Infinity,
      repeatType: "mirror",
      ease: "linear",
    });

    const controlsY = animate(y, [0, 30, 100, 70, 0], {
      duration: 40,
      repeat: Infinity,
      repeatType: "mirror",
      ease: "linear",
    });

    return () => {
      controlsX.stop();
      controlsY.stop();
    };
  }, []);
''\<close>

definition new_content_044_062 :: string where
  \<open>new_content_044_062 =
''
  const maskImage = useMotionTemplate`radial-gradient(350px circle at ${x}% ${y}%, black, transparent)`;

  return (
    <div className="absolute inset-0 z-0 overflow-hidden pointer-events-none">
      <div
        className="absolute inset-0 opacity-[0.08]"
        style={{
          backgroundImage: `
            linear-gradient(to right, rgba(255, 255, 255, 0.1) 1px, transparent 1px),
            linear-gradient(to bottom, rgba(255, 255, 255, 0.1) 1px, transparent 1px)
          `,
          backgroundSize: '40px 40px',
        }}
      />
      <motion.div
        className="absolute inset-0"
        style={{
          backgroundImage: `
''\<close>

definition new_content_063_081 :: string where
  \<open>new_content_063_081 =
''            linear-gradient(to right, rgba(99, 102, 241, 0.25) 1px, transparent 1px),
            linear-gradient(to bottom, rgba(99, 102, 241, 0.25) 1px, transparent 1px)
          `,
          backgroundSize: '40px 40px',
          maskImage,
          WebkitMaskImage: maskImage,
        }}
      />
      <div className="absolute inset-0 bg-gradient-to-b from-transparent via-[#020617]/80 to-[#020617]" />
    </div>
  );
};

const Navbar = () => (
  <nav className="fixed top-0 left-0 right-0 z-50 bg-[#020617]/80 backdrop-blur-md border-b border-white/5">
    <div className="max-w-7xl mx-auto px-6 h-16 flex items-center justify-between">
      <div className="flex items-center gap-2">
        <div className="w-8 h-8 bg-gradient-to-br from-indigo-500 to-purple-600 rounded-lg flex items-center justify-center shadow-lg shadow-indigo-500/20">
          <Database className="w-4 h-4 text-white" />
''\<close>

definition new_content_082_100 :: string where
  \<open>new_content_082_100 =
''        </div>
        <span className="text-lg font-bold text-white tracking-tight">ChatSQL</span>
      </div>

      <div className="hidden md:flex items-center gap-8">
        <a href="#features" className="text-sm font-medium text-gray-400 hover:text-white transition-colors">Features</a>
        <a href="#how-it-works" className="text-sm font-medium text-gray-400 hover:text-white transition-colors">How it works</a>
        <a href="#pricing" className="text-sm font-medium text-gray-400 hover:text-white transition-colors">Pricing</a>
      </div>

      <div className="flex items-center gap-4">
        <Link to="/auth/signin" className="text-sm font-medium text-gray-300 hover:text-white transition-colors hidden sm:block">Sign In</Link>
        <Link to="/dashboard" className="bg-white text-black hover:bg-gray-200 px-4 py-2 rounded-md text-sm font-semibold transition-all">
          Get Started
        </Link>
      </div>
    </div>
  </nav>
);
''\<close>

definition new_content_101_119 :: string where
  \<open>new_content_101_119 =
''
const FeatureCard = ({ icon: Icon, title, description }: { icon: any, title: string, description: string }) => (
  <div className="p-6 rounded-xl bg-[#0f172a] border border-white/5 hover:border-indigo-500/30 transition-all group">
    <div className="w-12 h-12 rounded-lg bg-indigo-500/10 flex items-center justify-center mb-4 group-hover:bg-indigo-500/20 transition-colors">
      <Icon className="w-6 h-6 text-indigo-400" />
    </div>
    <h3 className="text-lg font-semibold text-white mb-2">{title}</h3>
    <p className="text-gray-400 text-sm leading-relaxed">{description}</p>
  </div>
);

const ChatSQLLanding = () => {
  return (
    <div className="min-h-screen bg-[#020617] text-white selection:bg-indigo-500/30">
      <Navbar />
      
      {/* Hero Section */}
      <section className="relative pt-32 pb-20 px-6 overflow-hidden">
        <SquareGrid />
''\<close>

definition new_content_120_138 :: string where
  \<open>new_content_120_138 =
''        
        <div className="max-w-5xl mx-auto text-center relative z-10">
          <motion.div
            initial={{ opacity: 0, y: 20 }}
            animate={{ opacity: 1, y: 0 }}
            transition={{ duration: 0.5 }}
            className="inline-flex items-center gap-2 px-3 py-1 rounded-full bg-indigo-500/10 border border-indigo-500/20 text-indigo-300 text-xs font-medium mb-8"
          >
            <Sparkles className="w-3 h-3" />
            <span>v2.0 is now available</span>
          </motion.div>

          <motion.h1
            initial={{ opacity: 0, y: 20 }}
            animate={{ opacity: 1, y: 0 }}
            transition={{ duration: 0.5, delay: 0.1 }}
            className="text-5xl md:text-7xl font-bold tracking-tight mb-6 bg-clip-text text-transparent bg-gradient-to-b from-white to-white/60"
          >
            Talk to your database <br />
''\<close>

definition new_content_139_157 :: string where
  \<open>new_content_139_157 =
''            <span className="text-indigo-400">in plain English</span>
          </motion.h1>

          <motion.p
            initial={{ opacity: 0, y: 20 }}
            animate={{ opacity: 1, y: 0 }}
            transition={{ duration: 0.5, delay: 0.2 }}
            className="text-lg md:text-xl text-gray-400 mb-10 max-w-2xl mx-auto leading-relaxed"
          >
            Build, query, and manage your SQL databases using natural language. 
            The modern SQL editor designed for the AI era.
          </motion.p>

          <motion.div
            initial={{ opacity: 0, y: 20 }}
            animate={{ opacity: 1, y: 0 }}
            transition={{ duration: 0.5, delay: 0.3 }}
            className="flex flex-col sm:flex-row items-center justify-center gap-4"
          >
''\<close>

definition new_content_158_176 :: string where
  \<open>new_content_158_176 =
''            <Link to="/dashboard" className="w-full sm:w-auto bg-indigo-600 hover:bg-indigo-500 text-white px-8 py-3.5 rounded-lg font-semibold transition-all flex items-center justify-center gap-2 shadow-lg shadow-indigo-500/25">
              Start Building Free
              <ArrowRight className="w-4 h-4" />
            </Link>
            <button className="w-full sm:w-auto px-8 py-3.5 rounded-lg font-semibold text-gray-300 border border-white/10 hover:bg-white/5 transition-all flex items-center justify-center gap-2">
              <Terminal className="w-4 h-4" />
              View Documentation
            </button>
          </motion.div>
        </div>

        {/* Dashboard Preview */}
        <motion.div
          initial={{ opacity: 0, y: 40 }}
          animate={{ opacity: 1, y: 0 }}
          transition={{ duration: 0.8, delay: 0.4 }}
          className="max-w-6xl mx-auto mt-20 relative z-10"
        >
          <div className="rounded-xl bg-[#0f172a] border border-white/10 shadow-2xl overflow-hidden">
''\<close>

definition new_content_177_195 :: string where
  \<open>new_content_177_195 =
''            <div className="h-10 bg-[#1e293b] border-b border-white/5 flex items-center px-4 gap-2">
              <div className="flex gap-1.5">
                <div className="w-3 h-3 rounded-full bg-red-500/20" />
                <div className="w-3 h-3 rounded-full bg-yellow-500/20" />
                <div className="w-3 h-3 rounded-full bg-green-500/20" />
              </div>
              <div className="ml-4 text-xs text-gray-500 font-mono">Query Console</div>
            </div>
            <div className="grid grid-cols-12 h-[500px] bg-[#020617]">
              {/* Sidebar Mockup */}
              <div className="col-span-2 border-r border-white/5 p-4 hidden md:block">
                <div className="space-y-3">
                  <div className="h-2 w-20 bg-white/10 rounded" />
                  <div className="h-2 w-16 bg-white/10 rounded" />
                  <div className="h-2 w-24 bg-white/10 rounded" />
                </div>
              </div>
              {/* Editor Mockup */}
              <div className="col-span-12 md:col-span-10 p-6">
''\<close>

definition new_content_196_214 :: string where
  \<open>new_content_196_214 =
''                <div className="flex items-center gap-2 mb-4">
                  <div className="px-3 py-1 rounded bg-indigo-500/10 text-indigo-400 text-xs font-mono">SELECT * FROM users WHERE active = true</div>
                </div>
                <div className="space-y-2 font-mono text-sm">
                  <div className="flex gap-4 text-gray-500 border-b border-white/5 pb-2">
                    <span className="w-10">id</span>
                    <span className="w-32">email</span>
                    <span className="w-24">role</span>
                    <span className="w-20">status</span>
                  </div>
                  <div className="flex gap-4 text-gray-300">
                    <span className="w-10 text-indigo-400">1</span>
                    <span className="w-32">alex@example.com</span>
                    <span className="w-24">admin</span>
                    <span className="w-20 text-green-400">active</span>
                  </div>
                  <div className="flex gap-4 text-gray-300">
                    <span className="w-10 text-indigo-400">2</span>
                    <span className="w-32">sarah@example.com</span>
''\<close>

definition new_content_215_233 :: string where
  \<open>new_content_215_233 =
''                    <span className="w-24">editor</span>
                    <span className="w-20 text-green-400">active</span>
                  </div>
                  <div className="flex gap-4 text-gray-300">
                    <span className="w-10 text-indigo-400">3</span>
                    <span className="w-32">mike@example.com</span>
                    <span className="w-24">viewer</span>
                    <span className="w-20 text-green-400">active</span>
                  </div>
                </div>
              </div>
            </div>
          </div>
          {/* Glow effect behind dashboard */}
          <div className="absolute -inset-4 bg-indigo-500/20 blur-3xl -z-10 rounded-[3rem] opacity-50" />
        </motion.div>
      </section>

      {/* Trusted By */}
''\<close>

definition new_content_234_252 :: string where
  \<open>new_content_234_252 =
''      <section className="py-10 border-y border-white/5 bg-[#020617]/50">
        <div className="max-w-7xl mx-auto px-6">
          <p className="text-center text-sm text-gray-500 mb-8">TRUSTED BY ENGINEERING TEAMS AT</p>
          <div className="flex flex-wrap justify-center items-center gap-12 opacity-50 grayscale hover:grayscale-0 transition-all duration-500">
            <img src={amazonLogo} alt="Amazon" className="h-6 object-contain" />
            <img src={googleLogo} alt="Google" className="h-6 object-contain" />
            <img src={microsoftLogo} alt="Microsoft" className="h-6 object-contain" />
            <img src={coinbaseLogo} alt="Coinbase" className="h-6 object-contain" />
            <img src={nikeLogo} alt="Nike" className="h-8 object-contain" />
          </div>
        </div>
      </section>

      {/* Features Grid */}
      <section id="features" className="py-24 px-6 relative">
        <div className="max-w-7xl mx-auto">
          <div className="text-center mb-16">
            <h2 className="text-3xl md:text-4xl font-bold mb-4">Everything you need to manage data</h2>
            <p className="text-gray-400 max-w-2xl mx-auto">
''\<close>

definition new_content_253_271 :: string where
  \<open>new_content_253_271 =
''              Stop wrestling with complex SQL clients. ChatSQL gives you a modern, 
              AI-powered environment to visualize, query, and manage your databases.
            </p>
          </div>

          <div className="grid md:grid-cols-2 lg:grid-cols-3 gap-6">
            <FeatureCard 
              icon={Zap}
              title="AI-Powered Queries"
              description="Write queries in plain English. Our advanced AI understands your schema and generates optimized SQL instantly."
            />
            <FeatureCard 
              icon={Layers}
              title="Visual Schema Builder"
              description="Design your database schema visually. Drag and drop tables, define relationships, and export SQL."
            />
            <FeatureCard 
              icon={Shield}
              title="Enterprise Security"
''\<close>

definition new_content_272_290 :: string where
  \<open>new_content_272_290 =
''              description="Bank-grade encryption for your connections. Role-based access control and audit logs included."
            />
            <FeatureCard 
              icon={GitBranch}
              title="Version Control"
              description="Track changes to your schema and queries. Rollback to previous versions with a single click."
            />
            <FeatureCard 
              icon={Search}
              title="Smart Search"
              description="Find anything in your database instantly. Search across tables, columns, and saved queries."
            />
            <FeatureCard 
              icon={Code}
              title="API Generation"
              description="Automatically generate REST and GraphQL APIs from your database schema in seconds."
            />
          </div>
        </div>
''\<close>

definition new_content_291_309 :: string where
  \<open>new_content_291_309 =
''      </section>

      {/* CTA Section */}
      <section className="py-24 px-6">
        <div className="max-w-4xl mx-auto text-center bg-gradient-to-b from-[#0f172a] to-[#020617] border border-white/10 rounded-2xl p-12 relative overflow-hidden">
          <div className="absolute top-0 left-0 w-full h-1 bg-gradient-to-r from-transparent via-indigo-500 to-transparent" />
          
          <h2 className="text-3xl md:text-4xl font-bold mb-6">Ready to modernize your workflow?</h2>
          <p className="text-gray-400 mb-8 max-w-xl mx-auto">
            Join thousands of developers who are building faster with ChatSQL. 
            Start for free, no credit card required.
          </p>
          
          <div className="flex flex-col sm:flex-row items-center justify-center gap-4">
            <Link to="/dashboard" className="bg-white text-black hover:bg-gray-200 px-8 py-3 rounded-lg font-semibold transition-all w-full sm:w-auto">
              Get Started Now
            </Link>
            <Link to="/contact" className="text-gray-300 hover:text-white font-medium px-8 py-3 w-full sm:w-auto">
              Contact Sales
''\<close>

definition new_content_310_328 :: string where
  \<open>new_content_310_328 =
''            </Link>
          </div>
        </div>
      </section>

      {/* Footer */}
      <footer className="border-t border-white/5 py-12 px-6 bg-[#020617]">
        <div className="max-w-7xl mx-auto grid grid-cols-2 md:grid-cols-4 gap-8">
          <div className="col-span-2 md:col-span-1">
            <div className="flex items-center gap-2 mb-4">
              <Database className="w-5 h-5 text-indigo-500" />
              <span className="font-bold text-lg">ChatSQL</span>
            </div>
            <p className="text-gray-500 text-sm">
              The modern database client for the AI era.
            </p>
          </div>
          
          <div>
''\<close>

definition new_content_329_347 :: string where
  \<open>new_content_329_347 =
''            <h4 className="font-semibold mb-4">Product</h4>
            <ul className="space-y-2 text-sm text-gray-400">
              <li><a href="#" className="hover:text-white transition-colors">Features</a></li>
              <li><a href="#" className="hover:text-white transition-colors">Integrations</a></li>
              <li><a href="#" className="hover:text-white transition-colors">Pricing</a></li>
              <li><a href="#" className="hover:text-white transition-colors">Changelog</a></li>
            </ul>
          </div>
          
          <div>
            <h4 className="font-semibold mb-4">Resources</h4>
            <ul className="space-y-2 text-sm text-gray-400">
              <li><a href="#" className="hover:text-white transition-colors">Documentation</a></li>
              <li><a href="#" className="hover:text-white transition-colors">API Reference</a></li>
              <li><a href="#" className="hover:text-white transition-colors">Community</a></li>
              <li><a href="#" className="hover:text-white transition-colors">Blog</a></li>
            </ul>
          </div>
          
''\<close>

definition new_content_348_366 :: string where
  \<open>new_content_348_366 =
''          <div>
            <h4 className="font-semibold mb-4">Company</h4>
            <ul className="space-y-2 text-sm text-gray-400">
              <li><a href="#" className="hover:text-white transition-colors">About</a></li>
              <li><a href="#" className="hover:text-white transition-colors">Careers</a></li>
              <li><a href="#" className="hover:text-white transition-colors">Legal</a></li>
              <li><a href="#" className="hover:text-white transition-colors">Contact</a></li>
            </ul>
          </div>
        </div>
        <div className="max-w-7xl mx-auto mt-12 pt-8 border-t border-white/5 text-center text-gray-600 text-sm">
          '' @ CHR 0xA9 # '' 2025 ChatSQL Inc. All rights reserved.
        </div>
      </footer>
    </div>
  );
};

export default ChatSQLLanding;
''\<close>

definition new_content :: string where
  "new_content =
     new_content_006_024 @
     new_content_025_043 @
     new_content_044_062 @
     new_content_063_081 @
     new_content_082_100 @
     new_content_101_119 @
     new_content_120_138 @
     new_content_139_157 @
     new_content_158_176 @
     new_content_177_195 @
     new_content_196_214 @
     new_content_215_233 @
     new_content_234_252 @
     new_content_253_271 @
     new_content_272_290 @
     new_content_291_309 @
     new_content_310_328 @
     new_content_329_347 @
     new_content_348_366"

subsection \<open>The operating system as the script sees it\<close>

text \<open>
  The exceptions that \<^verbatim>\<open>open\<close>, \<^verbatim>\<open>write\<close> and \<^verbatim>\<open>close\<close> raise, under Python's names
  (\<open>OSError_ENOSPC\<close> is \<^verbatim>\<open>OSError\<close> with \<^verbatim>\<open>errno.ENOSPC\<close>, "no space left on device";
  \<open>ValueError\<close> is "I/O operation on closed file").
\<close>

datatype error =
    FileNotFoundError
  | NotADirectoryError
  | IsADirectoryError
  | PermissionError
  | UnicodeEncodeError
  | OSError_ENOSPC
  | ValueError

text \<open>
  A text encoding: its name and the characters it can represent, which is all a write
  needs to know of it. \<^verbatim>\<open>ascii\<close> represents the code points below 128, \<^verbatim>\<open>utf-8\<close> all
  of them.
\<close>

record codec =
  codec_name :: string
  encodes :: "char \<Rightarrow> bool"

definition enc_ascii :: codec where
  "enc_ascii = \<lparr>codec_name = ''ascii'', encodes = (\<lambda>c. of_char c < (128::nat))\<rparr>"

definition enc_utf_8 :: codec where
  "enc_utf_8 = \<lparr>codec_name = ''utf-8'', encodes = (\<lambda>c. True)\<rparr>"

text \<open>
  An open text file object: the path it was opened on, its encoding and the text not yet
  flushed.
\<close>

record file_obj =
  name :: path
  encoding :: codec
  buffer :: string

text \<open>
  The state a run acts on. Files hold text: what a file holds is what reading it back
  under the encoding it was written in returns. Distinct paths are distinct files (no
  links).
  \<^item> \<open>dirs\<close>: the directories that exist;
  \<^item> \<open>files\<close>: the regular files and their content;
  \<^item> \<open>writable\<close>: whether the process may write a file, or add an entry to a directory;
  \<^item> \<open>umask_write\<close>: whether a file the process creates is writable by it
    (mode \<^verbatim>\<open>0o666 & ~umask\<close>);
  \<^item> \<open>free_space\<close>: how many more characters the device accepts;
  \<^item> \<open>buffer_size\<close>: how much text a file object holds back before it flushes by itself;
  \<^item> \<open>handles\<close>: the open file objects of the process, by descriptor.
\<close>

record os_state =
  dirs :: "path set"
  files :: "path \<rightharpoonup> string"
  writable :: "path \<Rightarrow> bool"
  umask_write :: bool
  free_space :: nat
  buffer_size :: nat
  handles :: "(nat \<times> file_obj) list"

text \<open>
  The environment a process is started in: its variables, and the text encoding of its
  locale. The interpreter works the encoding out at start-up from the variables
  (\<^verbatim>\<open>LC_ALL\<close>, \<^verbatim>\<open>LC_CTYPE\<close>, \<^verbatim>\<open>LANG\<close>, \<^verbatim>\<open>PYTHONUTF8\<close>, \<^verbatim>\<open>PYTHONCOERCECLOCALE\<close>) and
  the platform's locale tables; that rule is the interpreter's and not the script's, so
  its result is given with the environment.
\<close>

record process_env =
  variables :: "string \<rightharpoonup> string"
  locale_encoding :: codec

text \<open>
  The directory a path lies in, as \<^verbatim>\<open>posixpath.dirname\<close> computes it: everything up to
  the last slash, without trailing slashes unless it consists of slashes only.
\<close>

definition dirname :: "path \<Rightarrow> path" where
  "dirname p =
     (let head = rev (dropWhile (\<lambda>c. c \<noteq> CHR ''/'') (rev p))
      in if head \<noteq> [] \<and> head \<noteq> replicate (length head) (CHR ''/'')
         then rev (dropWhile (\<lambda>c. c = CHR ''/'') (rev head))
         else head)"

text \<open>
  A descriptor that is not in use. (The kernel hands out the lowest one; the script never
  looks at the number.)
\<close>

definition unused_fd :: "(nat \<times> file_obj) list \<Rightarrow> nat" where
  "unused_fd hs = Suc (fold max (map fst hs) 0)"

subsection \<open>\<^verbatim>\<open>open(p, 'w')\<close>, \<^verbatim>\<open>f.write(s)\<close>, \<^verbatim>\<open>f.close()\<close>\<close>

text \<open>
  \<^verbatim>\<open>open(p, 'w')\<close> (\<^verbatim>\<open>O_WRONLY | O_CREAT | O_TRUNC\<close>), with no \<^verbatim>\<open>encoding\<close> argument: the
  file object takes the encoding \<open>enc\<close> of the locale. It raises, and changes nothing,
  when the path is empty or its directory is missing, when the path is a directory, or
  when the process may not write the file (or, for a file that does not exist yet, its
  directory). Otherwise the file exists afterwards and is empty, the space its old content
  took is free again, and a new file object with an empty buffer is open on it.
\<close>

definition open_w :: "path \<Rightarrow> codec \<Rightarrow> os_state \<Rightarrow> (error + nat) \<times> os_state" where
  "open_w p enc st =
     (if p = [] then (Inl FileNotFoundError, st)
      else if dirname p \<notin> dirs st then
        (if files st (dirname p) = None then (Inl FileNotFoundError, st)
         else (Inl NotADirectoryError, st))
      else if p \<in> dirs st then (Inl IsADirectoryError, st)
      else
        (case files st p of
           Some old \<Rightarrow>
             if \<not> writable st p then (Inl PermissionError, st)
             else
               (let f = unused_fd (handles st)
                in (Inr f,
                    st\<lparr>files := (files st)(p \<mapsto> []),
                       free_space := free_space st + length old,
                       handles :=
                         AList.update f \<lparr>name = p, encoding = enc, buffer = []\<rparr> (handles st)\<rparr>))
         | None \<Rightarrow>
             if \<not> writable st (dirname p) then (Inl PermissionError, st)
             else
               (let f = unused_fd (handles st)
                in (Inr f,
                    st\<lparr>files := (files st)(p \<mapsto> []),
                       writable := (writable st)(p := umask_write st),
                       handles :=
                         AList.update f \<lparr>name = p, encoding = enc, buffer = []\<rparr> (handles st)\<rparr>))))"

text \<open>
  Flushing hands the buffer to the device, which appends as much of it to the file as it
  has space for. The buffer is empty afterwards: when the device did not take all of it,
  the rest is lost and the flush raises.
\<close>

definition flush_f :: "nat \<Rightarrow> os_state \<Rightarrow> (error + unit) \<times> os_state" where
  "flush_f f st =
     (case map_of (handles st) f of
        None \<Rightarrow> (Inl ValueError, st)
      | Some h \<Rightarrow>
          if buffer h = [] then (Inr (), st)
          else
            (let n = min (length (buffer h)) (free_space st);
                 old = (case files st (name h) of None \<Rightarrow> [] | Some c \<Rightarrow> c);
                 st' = st\<lparr>files := (files st)(name h \<mapsto> old @ take n (buffer h)),
                          free_space := free_space st - n,
                          handles := AList.update f (h\<lparr>buffer := []\<rparr>) (handles st)\<rparr>
             in (if n < length (buffer h) then Inl OSError_ENOSPC else Inr (), st')))"

text \<open>
  \<^verbatim>\<open>f.write(s)\<close> encodes the whole of \<open>s\<close> first and raises, with nothing buffered, when
  the encoding of the file object cannot represent one of its characters. Otherwise it
  puts the text into the buffer and flushes once the buffer holds more than
  \<open>buffer_size\<close>; it returns the number of characters of \<open>s\<close>.
\<close>

definition write_f :: "nat \<Rightarrow> string \<Rightarrow> os_state \<Rightarrow> (error + nat) \<times> os_state" where
  "write_f f s st =
     (case map_of (handles st) f of
        None \<Rightarrow> (Inl ValueError, st)
      | Some h \<Rightarrow>
          if \<not> list_all (encodes (encoding h)) s then (Inl UnicodeEncodeError, st)
          else
            (let st1 = st\<lparr>handles := AList.update f (h\<lparr>buffer := buffer h @ s\<rparr>) (handles st)\<rparr>
             in if buffer_size st < length (buffer h @ s)
                then (case flush_f f st1 of
                        (Inl e, st2) \<Rightarrow> (Inl e, st2)
                      | (Inr u, st2) \<Rightarrow> (Inr (length s), st2))
                else (Inr (length s), st1)))"

text \<open>
  \<^verbatim>\<open>f.close()\<close> flushes and then releases the descriptor, also when the flush raised (the
  exception is raised once the descriptor is gone). Closing a closed file does nothing.
\<close>

definition close_f :: "nat \<Rightarrow> os_state \<Rightarrow> (error + unit) \<times> os_state" where
  "close_f f st =
     (case map_of (handles st) f of
        None \<Rightarrow> (Inr (), st)
      | Some h \<Rightarrow>
          (case flush_f f st of
             (r, st1) \<Rightarrow> (r, st1\<lparr>handles := AList.delete f (handles st1)\<rparr>)))"

subsection \<open>The \<^verbatim>\<open>with\<close> statement\<close>

text \<open>
  A file object's \<^verbatim>\<open>__exit__\<close> closes the file and returns \<^verbatim>\<open>None\<close>, which is false: it
  never asks for the exception in flight to be dropped.
\<close>

definition file_exit :: "nat \<Rightarrow> os_state \<Rightarrow> (error + bool) \<times> os_state" where
  "file_exit f st =
     (case close_f f st of
        (Inl e, st') \<Rightarrow> (Inl e, st')
      | (Inr u, st') \<Rightarrow> (Inr False, st'))"

text \<open>
  \<^verbatim>\<open>with open(p, 'w') as f: body\<close>. When \<^verbatim>\<open>open\<close> raises, neither the body nor
  \<^verbatim>\<open>__exit__\<close> runs. Otherwise the body runs and then \<^verbatim>\<open>__exit__\<close>, whether the body raised
  or not; an exception of \<^verbatim>\<open>__exit__\<close> takes the place of the body's, and the body's is
  raised again unless \<^verbatim>\<open>__exit__\<close> returned true.
\<close>

definition with_open ::
  "path \<Rightarrow> codec \<Rightarrow> (nat \<Rightarrow> os_state \<Rightarrow> (error + 'a) \<times> os_state) \<Rightarrow> os_state
     \<Rightarrow> (error + unit) \<times> os_state" where
  "with_open p enc body st =
     (case open_w p enc st of
        (Inl e, st1) \<Rightarrow> (Inl e, st1)
      | (Inr f, st1) \<Rightarrow>
          (case body f st1 of
             (Inl e, st2) \<Rightarrow>
               (case file_exit f st2 of
                  (Inl e', st3) \<Rightarrow> (Inl e', st3)
                | (Inr suppress, st3) \<Rightarrow> (if suppress then Inr () else Inl e, st3))
           | (Inr v, st2) \<Rightarrow>
               (case file_exit f st2 of
                  (Inl e', st3) \<Rightarrow> (Inl e', st3)
                | (Inr suppress, st3) \<Rightarrow> (Inr (), st3))))"

subsection \<open>The script\<close>

text \<open>Source lines 369 and 370, for any path, locale encoding and text.\<close>

definition with_open_write ::
  "path \<Rightarrow> codec \<Rightarrow> string \<Rightarrow> os_state \<Rightarrow> (error + unit) \<times> os_state" where
  "with_open_write p enc s st = with_open p enc (\<lambda>f. write_f f s) st"

text \<open>
  A run of the script. The process is started with an argument vector and an environment.
  The script imports \<^verbatim>\<open>os\<close> and then reads neither; the environment still reaches the
  run, through the encoding that \<^verbatim>\<open>open\<close> takes from the locale.
\<close>

definition update_landing ::
  "string list \<Rightarrow> process_env \<Rightarrow> os_state \<Rightarrow> (error + unit) \<times> os_state" where
  "update_landing argv env st = with_open_write file_path (locale_encoding env) new_content st"

text \<open>
  The exit status of the interpreter: 0 when the script ran to its end, 1 when an
  exception reached the top level (after the traceback is printed).
\<close>

definition exit_status :: "error + unit \<Rightarrow> nat" where
  "exit_status r = (case r of Inl e \<Rightarrow> 1 | Inr u \<Rightarrow> 0)"

text \<open>Reading a file back as text, under the encoding it was written in.\<close>

definition read_text :: "path \<Rightarrow> os_state \<Rightarrow> error + string" where
  "read_text p st =
     (if p \<in> dirs st then Inl IsADirectoryError
      else case files st p of None \<Rightarrow> Inl FileNotFoundError | Some c \<Rightarrow> Inr c)"

text \<open>Whether a path is absolute, as \<^verbatim>\<open>posixpath.isabs\<close> decides it: it starts with a slash.\<close>

definition isabs :: "path \<Rightarrow> bool" where
  "isabs p = (case p of [] \<Rightarrow> False | c # cs \<Rightarrow> c = CHR ''/'')"

text \<open>The space \<open>open_w\<close> gives back when it truncates: the length of the old content.\<close>

definition reclaimed :: "os_state \<Rightarrow> path \<Rightarrow> nat" where
  "reclaimed st p = (case files st p of None \<Rightarrow> 0 | Some old \<Rightarrow> length old)"

subsection \<open>Concrete machines and environments\<close>

text \<open>The path and the text of the worked example: \<^verbatim>\<open>/tmp/example/out.txt\<close>, \<^verbatim>\<open>hello world\<close>.\<close>

definition scenario_path :: path where
  "scenario_path = ''/tmp/example/out.txt''"

definition scenario_text :: string where
  "scenario_text = ''hello world''"

text \<open>
  A machine with the directory \<^verbatim>\<open>/tmp/example\<close> and no file in it, where everything is
  writable and a file object flushes by itself beyond eight characters.
\<close>

definition scenario :: os_state where
  "scenario =
     \<lparr>dirs = {''/'', ''/tmp'', ''/tmp/example''},
      files = Map.empty,
      writable = (\<lambda>p. True),
      umask_write = True,
      free_space = 64,
      buffer_size = 8,
      handles = []\<rparr>"

text \<open>The same machine with the file of the example already there, holding some other text.\<close>

definition scenario_old :: os_state where
  "scenario_old = scenario\<lparr>files := [scenario_path \<mapsto> ''old text'']\<rparr>"

text \<open>The same again, with that file read-only for the process.\<close>

definition scenario_readonly :: os_state where
  "scenario_readonly = scenario_old\<lparr>writable := (\<lambda>p. p \<noteq> scenario_path)\<rparr>"

text \<open>The first machine with room for five more characters only.\<close>

definition scenario_full :: os_state where
  "scenario_full = scenario\<lparr>free_space := 5\<rparr>"

text \<open>
  A machine that has the directory the script writes into, an older version of the page
  in it, and one unrelated file.
\<close>

definition dev_machine :: os_state where
  "dev_machine =
     \<lparr>dirs = {''/'', ''/etc'',
              ''/Users/bizer/Development/Projects/ChatSQL/ChatSQL-ui/src/pages''},
      files = [file_path \<mapsto> ''export default null;'', ''/etc/hosts'' \<mapsto> ''127.0.0.1 localhost''],
      writable = (\<lambda>p. True),
      umask_write = True,
      free_space = 20000,
      buffer_size = 8192,
      handles = []\<rparr>"

text \<open>
  That machine with its disk nearly full: the page does not fit. With the usual buffer the
  write itself meets the full disk.
\<close>

definition dev_machine_full :: os_state where
  "dev_machine_full = dev_machine\<lparr>free_space := 100\<rparr>"

text \<open>
  The same with a buffer that takes the whole page: the write returns and the full disk
  is met on closing.
\<close>

definition dev_machine_lazy :: os_state where
  "dev_machine_lazy = dev_machine\<lparr>free_space := 100, buffer_size := 65536\<rparr>"

text \<open>
  Argument vectors and environments a run may be started with: two under a UTF-8 locale,
  one under the C locale with UTF-8 mode and locale coercion switched off, where the
  locale's encoding is ASCII.
\<close>

definition example_argv :: "string list" where
  "example_argv = [''update_landing.py'', ''--dry-run'']"

definition example_environ :: process_env where
  "example_environ =
     \<lparr>variables = [''HOME'' \<mapsto> ''/Users/bizer'', ''LANG'' \<mapsto> ''en_US.UTF-8''],
      locale_encoding = enc_utf_8\<rparr>"


definition other_environ :: process_env where
  "other_environ =
     \<lparr>variables = [''LANDING_PATH'' \<mapsto> ''/tmp/example/out.txt'', ''LC_ALL'' \<mapsto> ''C.UTF-8''],
      locale_encoding = enc_utf_8\<rparr>"

definition ascii_environ :: process_env where
  "ascii_environ =
     \<lparr>variables = [''HOME'' \<mapsto> ''/Users/bizer'', ''LC_ALL'' \<mapsto> ''C'',
                   ''PYTHONUTF8'' \<mapsto> ''0'', ''PYTHONCOERCECLOCALE'' \<mapsto> ''0''],
      locale_encoding = enc_ascii\<rparr>"

section \<open>Facts about the model\<close>

lemma pair_fstI: "fst x = a \<Longrightarrow> x = (a, snd x)"
  by (cases x) simp

subsection \<open>Descriptors\<close>

lemma fold_max_ge_init: "a \<le> fold max ks (a::nat)"
  by (induction ks arbitrary: a) (auto intro: order_trans[OF max.cobounded2])

lemma fold_max_ge_elem: "k \<in> set ks \<Longrightarrow> k \<le> fold max ks (a::nat)"
proof (induction ks arbitrary: a)
  case Nil
  then show ?case by simp
next
  case (Cons x ks)
  show ?case
  proof (cases "k = x")
    case True
    have "x \<le> max x a" by simp
    also have "\<dots> \<le> fold max ks (max x a)" by (rule fold_max_ge_init)
    finally show ?thesis using True by simp
  next
    case False
    with Cons show ?thesis by simp
  qed
qed

lemma unused_fd_fresh: "unused_fd hs \<notin> fst ` set hs"
proof
  assume "unused_fd hs \<in> fst ` set hs"
  then have "unused_fd hs \<in> set (map fst hs)" by simp
  then have "unused_fd hs \<le> fold max (map fst hs) 0" by (rule fold_max_ge_elem)
  then show False by (simp add: unused_fd_def)
qed

subsection \<open>What \<open>open_w\<close> does\<close>

lemma open_w_Inl: "open_w p enc st = (Inl e, st') \<Longrightarrow> st' = st"
  by (auto simp: open_w_def Let_def split: if_splits option.splits)

lemma open_w_Inr:
  assumes "open_w p enc st = (Inr f, st1)"
  shows "f = unused_fd (handles st)"
    and "st1 = st\<lparr>files := (files st)(p \<mapsto> []),
                  writable := (writable st)(p := (if files st p = None then umask_write st else writable st p)),
                  free_space := free_space st + reclaimed st p,
                  handles := AList.update f \<lparr>name = p, encoding = enc, buffer = []\<rparr> (handles st)\<rparr>"
    and "p \<noteq> []" and "dirname p \<in> dirs st" and "p \<notin> dirs st"
    and "files st p \<noteq> None \<Longrightarrow> writable st p"
    and "files st p = None \<Longrightarrow> writable st (dirname p)"
  using assms
  by (auto simp: open_w_def Let_def reclaimed_def split: if_splits option.splits)

lemma open_w_cases:
  obtains (fail) e where "open_w p enc st = (Inl e, st)"
  | (ok) f st1 where "open_w p enc st = (Inr f, st1)"
proof (cases "open_w p enc st")
  case (Pair r st1)
  show ?thesis
  proof (cases r)
    case (Inl e)
    with Pair open_w_Inl[of p enc st e st1] fail show ?thesis by simp
  next
    case (Inr f)
    with Pair ok show ?thesis by simp
  qed
qed

lemma open_w_handle:
  assumes "open_w p enc st = (Inr f, st1)"
  shows "map_of (handles st1) f = Some \<lparr>name = p, encoding = enc, buffer = []\<rparr>"
    and "AList.delete f (handles st1) = handles st"
    and "files st1 p = Some []"
    and "f \<notin> fst ` set (handles st)"
proof -
  note o = open_w_Inr[OF assms]
  show fr: "f \<notin> fst ` set (handles st)" using o(1) unused_fd_fresh by simp
  have hs: "handles st1 = AList.update f \<lparr>name = p, encoding = enc, buffer = []\<rparr> (handles st)"
    by (subst o(2)) simp
  show "map_of (handles st1) f = Some \<lparr>name = p, encoding = enc, buffer = []\<rparr>"
    by (simp add: hs AList.update_conv')
  show "AList.delete f (handles st1) = handles st"
    using fr by (simp add: hs AList.delete_update_same)
  show "files st1 p = Some []" by (subst o(2)) simp
qed

lemma open_w_dirs: "open_w p enc st = (Inr f, st1) \<Longrightarrow> dirs st1 = dirs st"
  by (subst open_w_Inr(2), assumption) simp

lemma open_w_free:
  "open_w p enc st = (Inr f, st1) \<Longrightarrow> free_space st1 = free_space st + reclaimed st p"
  by (subst open_w_Inr(2), assumption) simp

lemma open_w_other:
  "open_w p enc st = (Inr f, st1) \<Longrightarrow> q \<noteq> p \<Longrightarrow> files st1 q = files st q"
  by (subst open_w_Inr(2), assumption) simp

subsection \<open>Writing and closing on a freshly opened file\<close>

text \<open>
  On a file object whose buffer is empty, a write that raises leaves nothing to flush:
  closing the file afterwards returns.
\<close>

lemma close_after_failed_write:
  assumes "map_of (handles st1) f = Some h" and "buffer h = []"
    and "write_f f s st1 = (Inl e, st2)"
  shows "fst (close_f f st2) = Inr ()"
  using assms
  by (auto simp: write_f_def close_f_def flush_f_def Let_def AList.update_conv'
      split: if_splits option.splits prod.splits sum.splits)

text \<open>The body of the \<^verbatim>\<open>with\<close> block followed by \<^verbatim>\<open>__exit__\<close>, from such a state.\<close>

lemma write_then_exit:
  assumes h: "map_of (handles st1) f = Some \<lparr>name = p, encoding = enc, buffer = []\<rparr>"
    and e: "files st1 p = Some []"
  shows "(case write_f f s st1 of
            (Inl e, st2) \<Rightarrow>
              (case file_exit f st2 of
                 (Inl e', st3) \<Rightarrow> (Inl e', st3)
               | (Inr suppress, st3) \<Rightarrow> (if suppress then Inr () else Inl e, st3))
          | (Inr v, st2) \<Rightarrow>
              (case file_exit f st2 of
                 (Inl e', st3) \<Rightarrow> (Inl e', st3)
               | (Inr suppress, st3) \<Rightarrow> (Inr (), st3)))
         = (if \<not> list_all (encodes enc) s
            then (Inl UnicodeEncodeError, st1\<lparr>handles := AList.delete f (handles st1)\<rparr>)
            else (if length s \<le> free_space st1 then Inr () else Inl OSError_ENOSPC,
                  st1\<lparr>files := (files st1)(p \<mapsto> take (free_space st1) s),
                      free_space := free_space st1 - length s,
                      handles := AList.delete f (handles st1)\<rparr>))"
  using h e
  by (auto simp: write_f_def close_f_def flush_f_def file_exit_def Let_def AList.update_conv'
        AList.delete_update_same min_def map_upd_triv
      split: if_splits option.splits prod.splits sum.splits)

subsection \<open>The whole \<^verbatim>\<open>with\<close> block\<close>

lemma with_open_write_fail:
  "open_w p enc st = (Inl e, st') \<Longrightarrow> with_open_write p enc s st = (Inl e, st)"
  using open_w_Inl[of p enc st e st'] by (simp add: with_open_write_def with_open_def)

lemma with_open_write_run:
  assumes "open_w p enc st = (Inr f, st1)"
  shows "with_open_write p enc s st =
           (if \<not> list_all (encodes enc) s
            then (Inl UnicodeEncodeError, st1\<lparr>handles := handles st\<rparr>)
            else (if length s \<le> free_space st1 then Inr () else Inl OSError_ENOSPC,
                  st1\<lparr>files := (files st1)(p \<mapsto> take (free_space st1) s),
                      free_space := free_space st1 - length s,
                      handles := handles st\<rparr>))"
proof -
  note h = open_w_handle[OF assms]
  have "with_open_write p enc s st =
          (case write_f f s st1 of
            (Inl e, st2) \<Rightarrow>
              (case file_exit f st2 of
                 (Inl e', st3) \<Rightarrow> (Inl e', st3)
               | (Inr suppress, st3) \<Rightarrow> (if suppress then Inr () else Inl e, st3))
          | (Inr v, st2) \<Rightarrow>
              (case file_exit f st2 of
                 (Inl e', st3) \<Rightarrow> (Inl e', st3)
               | (Inr suppress, st3) \<Rightarrow> (Inr (), st3)))"
    by (simp add: with_open_write_def with_open_def assms)
  also note write_then_exit[OF h(1) h(3), of s]
  finally show ?thesis by (simp only: h(2))
qed

lemma with_open_write_structure:
  assumes "open_w p enc st = (Inr f, st1)"
  shows "snd (with_open_write p enc s st) = snd (close_f f (snd (write_f f s st1)))"
  using assms
  by (auto simp: with_open_write_def with_open_def file_exit_def split: prod.splits sum.splits)

lemma run_success:
  assumes "with_open_write p enc s st = (Inr u, st')"
  shows "p \<notin> dirs st'" and "files st' p = Some s"
proof -
  have "p \<notin> dirs st' \<and> files st' p = Some s"
  proof (cases p enc st rule: open_w_cases)
    case (fail e)
    with assms with_open_write_fail[OF fail, of s] show ?thesis by simp
  next
    case (ok f st1)
    from assms with_open_write_run[OF ok, of s] open_w_Inr(5)[OF ok] open_w_dirs[OF ok]
    show ?thesis by (auto split: if_splits)
  qed
  then show "p \<notin> dirs st'" and "files st' p = Some s" by simp_all
qed

lemma run_dirs: "dirs (snd (with_open_write p enc s st)) = dirs st"
proof (cases p enc st rule: open_w_cases)
  case (fail e)
  then show ?thesis by (simp add: with_open_write_fail)
next
  case (ok f st1)
  then show ?thesis by (simp add: with_open_write_run open_w_dirs)
qed

lemma run_other: "q \<noteq> p \<Longrightarrow> files (snd (with_open_write p enc s st)) q = files st q"
proof (cases p enc st rule: open_w_cases)
  case (fail e)
  then show ?thesis by (simp add: with_open_write_fail)
next
  case (ok f st1)
  assume "q \<noteq> p"
  with ok show ?thesis by (simp add: with_open_write_run open_w_other)
qed

lemma run_handles: "handles (snd (with_open_write p enc s st)) = handles st"
proof (cases p enc st rule: open_w_cases)
  case (fail e)
  then show ?thesis by (simp add: with_open_write_fail)
next
  case (ok f st1)
  then show ?thesis by (simp add: with_open_write_run)
qed

lemma run_content:
  assumes "open_w p enc st = (Inr f, st1)"
  shows "files (snd (with_open_write p enc s st)) p
           = Some (if list_all (encodes enc) s then take (free_space st1) s else [])"
  using open_w_handle(3)[OF assms] by (simp add: with_open_write_run[OF assms])

lemma rerun_content:
  "files (snd (with_open_write p enc s (snd (with_open_write p enc s st)))) p
     = files (snd (with_open_write p enc s st)) p"
proof (cases p enc st rule: open_w_cases)
  case (fail e)
  then show ?thesis by (simp add: with_open_write_fail)
next
  case (ok f st1)
  define k where "k = free_space st1"
  define st' where "st' = snd (with_open_write p enc s st)"
  have c: "files st' p = Some (if list_all (encodes enc) s then take k s else [])"
    unfolding st'_def k_def by (rule run_content[OF ok])
  have fr: "free_space st' = (if list_all (encodes enc) s then k - length s else k)"
    by (simp add: st'_def k_def with_open_write_run[OF ok])
  show ?thesis
  proof (cases p enc st' rule: open_w_cases)
    case (fail e)
    then show ?thesis by (simp add: with_open_write_fail flip: st'_def)
  next
    case ok2: (ok f' st2)
    have "free_space st2 = free_space st' + reclaimed st' p" by (rule open_w_free[OF ok2])
    also have "\<dots> = k" by (simp add: c fr reclaimed_def min_def)
    finally have "files (snd (with_open_write p enc s st')) p
                    = Some (if list_all (encodes enc) s then take k s else [])"
      by (simp add: run_content[OF ok2])
    with c show ?thesis by (simp flip: st'_def)
  qed
qed

subsection \<open>The text: its length and its one character beyond ASCII\<close>

lemma length_pieces:
  "length new_content_006_024 = 712"
  "length new_content_025_043 = 406"
  "length new_content_044_062 = 651"
  "length new_content_063_081 = 905"
  "length new_content_082_100 = 963"
  "length new_content_101_119 = 870"
  "length new_content_120_138 = 885"
  "length new_content_139_157 = 788"
  "length new_content_158_176 = 1033"
  "length new_content_177_195 = 1075"
  "length new_content_196_214 = 1180"
  "length new_content_215_233 = 802"
  "length new_content_234_252 = 1173"
  "length new_content_253_271 = 854"
  "length new_content_272_290 = 840"
  "length new_content_291_309 = 1142"
  "length new_content_310_328 = 675"
  "length new_content_329_347 = 1123"
  "length new_content_348_366 = 805"
  by (simp_all add:
      new_content_006_024_def new_content_025_043_def new_content_044_062_def
      new_content_063_081_def new_content_082_100_def new_content_101_119_def
      new_content_120_138_def new_content_139_157_def new_content_158_176_def
      new_content_177_195_def new_content_196_214_def new_content_215_233_def
      new_content_234_252_def new_content_253_271_def new_content_272_290_def
      new_content_291_309_def new_content_310_328_def new_content_329_347_def
      new_content_348_366_def)

lemma length_new_content: "length new_content = 16882"
  by (simp add: new_content_def length_pieces)

lemma new_content_copyright: "CHR 0xA9 \<in> set new_content"
proof -
  have "CHR 0xA9 \<in> set new_content_348_366"
    by (simp add: new_content_348_366_def)
  then show ?thesis by (simp add: new_content_def)
qed

lemma new_content_utf_8: "list_all (encodes enc_utf_8) new_content"
  by (simp add: list_all_iff enc_utf_8_def)

lemma new_content_not_ascii: "\<not> list_all (encodes enc_ascii) new_content"
proof -
  have "\<not> encodes enc_ascii (CHR 0xA9)" by (simp add: enc_ascii_def)
  with new_content_copyright show ?thesis by (auto simp: list_all_iff)
qed

subsection \<open>Runs on the concrete machines\<close>

lemmas run_defs =
  with_open_write_def with_open_def open_w_def write_f_def close_f_def flush_f_def
  file_exit_def dirname_def unused_fd_def Let_def enc_utf_8_def

lemmas scenario_defs =
  scenario_def scenario_old_def scenario_readonly_def scenario_full_def
  scenario_path_def scenario_text_def

lemmas environ_defs = example_environ_def other_environ_def ascii_environ_def

lemma scenario_run:
  "fst (with_open_write scenario_path enc_utf_8 scenario_text scenario) = Inr ()"
  by (simp add: run_defs scenario_defs)

lemma scenario_old_run:
  "fst (with_open_write scenario_path enc_utf_8 scenario_text scenario_old) = Inr ()"
  by (simp add: run_defs scenario_defs)

lemma scenario_no_parent: "dirname file_path \<notin> dirs scenario"
  by (simp add: dirname_def file_path_def scenario_def)

lemma scenario_open: "open_w file_path enc scenario = (Inl FileNotFoundError, scenario)"
  using scenario_no_parent by (simp add: open_w_def file_path_def scenario_def)

lemma scenario_script:
  "update_landing argv env scenario = (Inl FileNotFoundError, scenario)"
  unfolding update_landing_def using scenario_open by (rule with_open_write_fail)

lemma dev_machine_open:
  "fst (open_w file_path enc dev_machine) = Inr 1"
  "free_space (snd (open_w file_path enc dev_machine)) = 20020"
  "fst (open_w file_path enc dev_machine_full) = Inr 1"
  "free_space (snd (open_w file_path enc dev_machine_full)) = 120"
  "buffer_size (snd (open_w file_path enc dev_machine_full)) = 8192"
  "fst (open_w file_path enc dev_machine_lazy) = Inr 1"
  "free_space (snd (open_w file_path enc dev_machine_lazy)) = 120"
  "buffer_size (snd (open_w file_path enc dev_machine_lazy)) = 65536"
  by (simp_all add: open_w_def dirname_def unused_fd_def dev_machine_def dev_machine_full_def
      dev_machine_lazy_def file_path_def)

lemma dev_machine_opened:
  "open_w file_path enc dev_machine = (Inr 1, snd (open_w file_path enc dev_machine))"
  "open_w file_path enc dev_machine_full = (Inr 1, snd (open_w file_path enc dev_machine_full))"
  "open_w file_path enc dev_machine_lazy = (Inr 1, snd (open_w file_path enc dev_machine_lazy))"
  by (rule prod_eqI; simp add: dev_machine_open)+

lemma dev_machine_script:
  "list_all (encodes (locale_encoding env)) new_content \<Longrightarrow> fst (update_landing argv env dev_machine) = Inr ()"
  using with_open_write_run[OF dev_machine_opened(1), of "locale_encoding env" new_content]
  by (simp add: update_landing_def dev_machine_open length_new_content)

lemma dev_machine_utf_8: "fst (update_landing argv example_environ dev_machine) = Inr ()"
  by (rule dev_machine_script) (simp add: example_environ_def new_content_utf_8)


text \<open>
  The handle that \<open>open_w\<close> leaves on these machines, and what \<open>write_f\<close> and \<open>close_f\<close>
  return on it when the disk is nearly full.
\<close>

lemma dev_machine_full_write:
  "fst (write_f 1 new_content (snd (open_w file_path enc_utf_8 dev_machine_full)))
     = Inl OSError_ENOSPC"
proof -
  note h = open_w_handle(1)[OF dev_machine_opened(2), of enc_utf_8]
  have n: "new_content \<noteq> []" using length_new_content by auto
  show ?thesis
    using h
    by (simp add: write_f_def flush_f_def Let_def new_content_utf_8 length_new_content
        dev_machine_open AList.update_conv' n)
qed

lemma dev_machine_lazy_write:
  "fst (write_f 1 new_content (snd (open_w file_path enc_utf_8 dev_machine_lazy)))
     = Inr 16882"
  "fst (close_f 1 (snd (write_f 1 new_content (snd (open_w file_path enc_utf_8 dev_machine_lazy)))))
     = Inl OSError_ENOSPC"
proof -
  note h = open_w_handle(1)[OF dev_machine_opened(3), of enc_utf_8]
  show "fst (write_f 1 new_content (snd (open_w file_path enc_utf_8 dev_machine_lazy)))
     = Inr 16882"
    using h
    by (simp add: write_f_def flush_f_def Let_def new_content_utf_8 length_new_content
        dev_machine_open)
  have n: "new_content \<noteq> []" using length_new_content by auto
  show "fst (close_f 1 (snd (write_f 1 new_content (snd (open_w file_path enc_utf_8 dev_machine_lazy)))))
     = Inl OSError_ENOSPC"
    using h
    by (simp add: write_f_def close_f_def flush_f_def Let_def new_content_utf_8
        length_new_content dev_machine_open AList.update_conv' n)
qed

section \<open>The claims\<close>

text \<open>
  Claim C1. After a run that raised nothing, reading the destination back returns
  exactly the text that was written: nothing before it, nothing after it, nothing
  changed in it. This holds for every destination \<open>P\<close>, locale encoding and text \<open>T\<close>,
  and so for the script, whose destination is \<open>file_path\<close> and whose text is
  \<open>new_content\<close>.
\<close>

theorem C1_exactness:
  "(with_open_write P enc T st = (Inr u, st') \<longrightarrow> read_text P st' = Inr T)
   \<and> (update_landing argv env st = (Inr u, st') \<longrightarrow> read_text file_path st' = Inr new_content)"
  by (auto simp: update_landing_def read_text_def dest: run_success)

theorem C1_exactness_witness:
  "read_text scenario_path (snd (with_open_write scenario_path enc_utf_8 scenario_text scenario))
     = Inr ''hello world''
   \<and> read_text file_path (snd (update_landing example_argv example_environ dev_machine))
     = Inr new_content"
proof -
  have a: "with_open_write scenario_path enc_utf_8 scenario_text scenario
             = (Inr (), snd (with_open_write scenario_path enc_utf_8 scenario_text scenario))"
    by (rule prod_eqI) (simp_all add: scenario_run)
  have b: "update_landing example_argv example_environ dev_machine
             = (Inr (), snd (update_landing example_argv example_environ dev_machine))"
    by (rule prod_eqI) (simp_all add: dev_machine_utf_8)
  from C1_exactness[where P = scenario_path and enc = enc_utf_8 and T = scenario_text
      and st = scenario and u = "()"
      and st' = "snd (with_open_write scenario_path enc_utf_8 scenario_text scenario)"] a
  have 1: "read_text scenario_path
             (snd (with_open_write scenario_path enc_utf_8 scenario_text scenario))
             = Inr scenario_text" by blast
  from C1_exactness[where argv = example_argv and env = example_environ
      and st = dev_machine and u = "()"
      and st' = "snd (update_landing example_argv example_environ dev_machine)"] b
  have 2: "read_text file_path (snd (update_landing example_argv example_environ dev_machine))
             = Inr new_content" by blast
  from 1 2 show ?thesis by (simp add: scenario_text_def)
qed

text \<open>
  Claim C2. The write is destructive: whatever text \<open>C\<close> other than \<open>T\<close> the destination
  held, after a run that raised nothing it holds \<open>T\<close> and not \<open>C\<close> (nothing is merged,
  nothing appended). Whenever \<open>open_w\<close> returns a file object, the file exists and is
  empty. It does return one, in a directory that exists, both for a missing file (which
  it creates, given that the directory is writable) and for a file that is there (which
  it truncates, given that the file is writable).
\<close>

theorem C2_destructive:
  "(files st P = Some C \<and> C \<noteq> T \<and> with_open_write P enc T st = (Inr u, st')
      \<longrightarrow> read_text P st' = Inr T \<and> read_text P st' \<noteq> Inr C)
   \<and> (open_w P enc st = (Inr f, st1) \<longrightarrow> files st1 P = Some [])
   \<and> (P \<noteq> [] \<and> dirname P \<in> dirs st \<and> P \<notin> dirs st \<and> files st P = None
        \<and> writable st (dirname P) \<longrightarrow>
        files (snd (open_w P enc st)) P = Some []
        \<and> fst (open_w P enc st) = Inr (unused_fd (handles st)))
   \<and> (P \<noteq> [] \<and> dirname P \<in> dirs st \<and> P \<notin> dirs st \<and> files st P = Some C
        \<and> writable st P \<longrightarrow>
        files (snd (open_w P enc st)) P = Some []
        \<and> fst (open_w P enc st) = Inr (unused_fd (handles st)))"
proof (intro conjI impI)
  assume "P \<noteq> [] \<and> dirname P \<in> dirs st \<and> P \<notin> dirs st \<and> files st P = None
        \<and> writable st (dirname P)"
  then show "files (snd (open_w P enc st)) P = Some []"
    and "fst (open_w P enc st) = Inr (unused_fd (handles st))"
    by (simp_all add: open_w_def Let_def)
next
  assume "P \<noteq> [] \<and> dirname P \<in> dirs st \<and> P \<notin> dirs st \<and> files st P = Some C
        \<and> writable st P"
  then show "files (snd (open_w P enc st)) P = Some []"
    and "fst (open_w P enc st) = Inr (unused_fd (handles st))"
    by (simp_all add: open_w_def Let_def)
next
  assume a: "files st P = Some C \<and> C \<noteq> T \<and> with_open_write P enc T st = (Inr u, st')"
  then have "with_open_write P enc T st = (Inr u, st')" by simp
  from run_success[OF this] show "read_text P st' = Inr T"
    by (simp add: read_text_def)
  with a show "read_text P st' \<noteq> Inr C" by auto
next
  assume "open_w P enc st = (Inr f, st1)"
  then show "files st1 P = Some []" by (rule open_w_handle(3))
qed

theorem C2_destructive_witness:
  "files scenario_old scenario_path = Some ''old text''
   \<and> read_text scenario_path
        (snd (with_open_write scenario_path enc_utf_8 scenario_text scenario_old))
       = Inr ''hello world''
   \<and> read_text scenario_path
        (snd (with_open_write scenario_path enc_utf_8 scenario_text scenario_old))
       \<noteq> Inr ''old text''
   \<and> files (snd (open_w scenario_path enc_utf_8 scenario_old)) scenario_path = Some []
   \<and> files scenario scenario_path = None
   \<and> files (snd (open_w scenario_path enc_utf_8 scenario)) scenario_path = Some []"
proof -
  have c: "files scenario_old scenario_path = Some ''old text''"
    by (simp add: scenario_defs)
  have m: "scenario_path \<noteq> [] \<and> dirname scenario_path \<in> dirs scenario
           \<and> scenario_path \<notin> dirs scenario \<and> files scenario scenario_path = None
           \<and> writable scenario (dirname scenario_path)"
    by (simp add: dirname_def scenario_defs)
  from C2_destructive[where st = scenario and P = scenario_path and enc = enc_utf_8] m
  have n: "files (snd (open_w scenario_path enc_utf_8 scenario)) scenario_path = Some []"
    by blast
  have d: "''old text'' \<noteq> scenario_text" by (simp add: scenario_text_def)
  have a: "with_open_write scenario_path enc_utf_8 scenario_text scenario_old
             = (Inr (), snd (with_open_write scenario_path enc_utf_8 scenario_text scenario_old))"
    by (rule prod_eqI) (simp_all add: scenario_old_run)
  have o: "open_w scenario_path enc_utf_8 scenario_old
             = (Inr 1, snd (open_w scenario_path enc_utf_8 scenario_old))"
    by (rule prod_eqI) (simp_all add: open_w_def dirname_def unused_fd_def scenario_defs)
  from C2_destructive[where st = scenario_old and P = scenario_path and C = "''old text''"
      and enc = enc_utf_8 and T = scenario_text and u = "()"
      and st' = "snd (with_open_write scenario_path enc_utf_8 scenario_text scenario_old)"
      and f = 1 and ?st1.0 = "snd (open_w scenario_path enc_utf_8 scenario_old)"] c d a o m n
  show ?thesis by (simp add: scenario_text_def)
qed

text \<open>
  Claim C3. When the process may not write the destination (the file, if it exists;
  its directory, if it does not), the run raises and leaves the whole state as it was,
  the prior content of the file included. Where the directory is there and the path is
  not itself a directory, the exception is \<open>PermissionError\<close>.
\<close>

theorem C3_not_writable:
  assumes "case files st P of Some c \<Rightarrow> \<not> writable st P | None \<Rightarrow> \<not> writable st (dirname P)"
  shows "(\<exists>e. with_open_write P enc T st = (Inl e, st))
         \<and> files (snd (with_open_write P enc T st)) P = files st P
         \<and> (P \<noteq> [] \<and> dirname P \<in> dirs st \<and> P \<notin> dirs st
               \<longrightarrow> with_open_write P enc T st = (Inl PermissionError, st))"
proof (cases P enc st rule: open_w_cases)
  case (fail e)
  have "P \<noteq> [] \<and> dirname P \<in> dirs st \<and> P \<notin> dirs st \<longrightarrow> e = PermissionError"
    using fail assms by (auto simp: open_w_def Let_def split: if_splits option.splits)
  with with_open_write_fail[OF fail, of T] show ?thesis by auto
next
  case (ok f st1)
  from open_w_Inr(6,7)[OF ok] assms show ?thesis by (cases "files st P") auto
qed

theorem C3_not_writable_witness:
  "\<not> writable scenario_readonly scenario_path
   \<and> with_open_write scenario_path enc_utf_8 scenario_text scenario_readonly
       = (Inl PermissionError, scenario_readonly)
   \<and> files (snd (with_open_write scenario_path enc_utf_8 scenario_text scenario_readonly))
        scenario_path
       = Some ''old text''"
proof -
  have h: "case files scenario_readonly scenario_path of
             Some c \<Rightarrow> \<not> writable scenario_readonly scenario_path
           | None \<Rightarrow> \<not> writable scenario_readonly (dirname scenario_path)"
    by (simp add: scenario_defs)
  have g: "scenario_path \<noteq> [] \<and> dirname scenario_path \<in> dirs scenario_readonly
             \<and> scenario_path \<notin> dirs scenario_readonly"
    by (simp add: dirname_def scenario_defs)
  have w: "\<not> writable scenario_readonly scenario_path"
    and c: "files scenario_readonly scenario_path = Some ''old text''"
    by (simp_all add: scenario_defs)
  from C3_not_writable[OF h, of enc_utf_8 scenario_text] g w c show ?thesis by simp
qed

text \<open>
  Claim C4, as stated: from every initial state, two runs in succession leave the
  destination with the same content as one run, namely the payload both times. The
  payload part fails where the run raises: on the machine \<open>scenario\<close> the directory of
  \<open>file_path\<close> is missing, both runs raise \<open>FileNotFoundError\<close>, and there is no file
  to hold the payload.
\<close>

theorem C4_counterexample:
  "read_text file_path
     (snd (update_landing example_argv example_environ
        (snd (update_landing example_argv example_environ scenario))))
   \<noteq> Inr new_content"
  by (simp add: scenario_script) (simp add: read_text_def scenario_def file_path_def)

text \<open>
  Claim C4, as amended. From every initial state, two runs in succession leave the
  destination with the same content as one run. When the first run raised nothing, that
  content is the text written, after the first run and after the second (also when the
  second run raises, which it does if the first created the file read-only).
\<close>

theorem C4_idempotent_content:
  "files (snd (with_open_write P enc T (snd (with_open_write P enc T st)))) P
     = files (snd (with_open_write P enc T st)) P
   \<and> (fst (with_open_write P enc T st) = Inr () \<longrightarrow>
        read_text P (snd (with_open_write P enc T st)) = Inr T
        \<and> read_text P (snd (with_open_write P enc T (snd (with_open_write P enc T st)))) = Inr T)"
proof (intro conjI impI)
  show r: "files (snd (with_open_write P enc T (snd (with_open_write P enc T st)))) P
     = files (snd (with_open_write P enc T st)) P" by (rule rerun_content)
  assume "fst (with_open_write P enc T st) = Inr ()"
  then have "with_open_write P enc T st = (Inr (), snd (with_open_write P enc T st))"
    by (metis prod.collapse)
  note s = run_success[OF this]
  from s show "read_text P (snd (with_open_write P enc T st)) = Inr T"
    by (simp add: read_text_def)
  from s r
  show "read_text P (snd (with_open_write P enc T (snd (with_open_write P enc T st)))) = Inr T"
    by (simp add: read_text_def run_dirs)
qed

theorem C4_idempotent_content_witness:
  "fst (with_open_write scenario_path enc_utf_8 scenario_text scenario) = Inr ()
   \<and> read_text scenario_path
        (snd (with_open_write scenario_path enc_utf_8 scenario_text scenario))
       = Inr ''hello world''
   \<and> read_text scenario_path
        (snd (with_open_write scenario_path enc_utf_8 scenario_text
           (snd (with_open_write scenario_path enc_utf_8 scenario_text scenario))))
       = Inr ''hello world''"
  using C4_idempotent_content[where P = scenario_path and enc = enc_utf_8
      and T = scenario_text and st = scenario]
    scenario_run
  by (simp add: scenario_text_def)

text \<open>
  Claim C5. When the directory of the destination does not exist, the run raises
  \<open>FileNotFoundError\<close> (\<open>NotADirectoryError\<close> when a regular file stands where the
  directory should be), changes nothing, and in particular does not create the directory.
\<close>

theorem C5_missing_parent:
  assumes "dirname P \<notin> dirs st"
  shows "(with_open_write P enc T st = (Inl FileNotFoundError, st)
          \<or> with_open_write P enc T st = (Inl NotADirectoryError, st))
         \<and> fst (with_open_write P enc T st) \<noteq> Inr ()
         \<and> dirname P \<notin> dirs (snd (with_open_write P enc T st))"
proof -
  have "open_w P enc st = (Inl FileNotFoundError, st)
        \<or> open_w P enc st = (Inl NotADirectoryError, st)"
    using assms by (simp add: open_w_def)
  then show ?thesis using with_open_write_fail[of P enc st _ st T] assms by auto
qed

theorem C5_missing_parent_witness:
  "dirname file_path \<notin> dirs scenario
   \<and> fst (with_open_write file_path enc_utf_8 new_content scenario) \<noteq> Inr ()
   \<and> dirname file_path \<notin> dirs (snd (with_open_write file_path enc_utf_8 new_content scenario))"
  using C5_missing_parent[OF scenario_no_parent, of enc_utf_8 new_content] scenario_no_parent
  by simp

text \<open>
  Claim C6. Nothing is caught. The exit status of a run is 0 exactly when \<open>open_w\<close>,
  \<open>write_f\<close> and \<open>close_f\<close> all returned, and 1 otherwise. An exception of \<open>open_w\<close>
  reaches the top level as it is, with the state untouched (no second attempt, no other
  path written). An exception of \<open>write_f\<close> reaches the top level as it is: the file is
  closed on the way, closing returns, and the \<^verbatim>\<open>with\<close> statement raises the exception of
  the write again. An exception of \<open>close_f\<close> after a write that returned reaches the top
  level as it is.
\<close>

theorem C6_errors_propagate:
  "(exit_status (fst (update_landing argv env st)) = 0 \<longleftrightarrow>
      (\<exists>f st1 n st2 st3. open_w file_path (locale_encoding env) st = (Inr f, st1)
          \<and> write_f f new_content st1 = (Inr n, st2) \<and> close_f f st2 = (Inr (), st3)))
   \<and> (exit_status (fst (update_landing argv env st)) \<noteq> 0 \<longrightarrow>
        exit_status (fst (update_landing argv env st)) = 1
        \<and> (\<exists>e. fst (update_landing argv env st) = Inl e))
   \<and> (open_w file_path (locale_encoding env) st = (Inl e, st1) \<longrightarrow>
        update_landing argv env st = (Inl e, st)
        \<and> exit_status (fst (update_landing argv env st)) = 1)
   \<and> (open_w file_path (locale_encoding env) st = (Inr f, st1)
        \<and> write_f f new_content st1 = (Inl e, st2) \<longrightarrow>
        update_landing argv env st = (Inl e, snd (close_f f st2))
        \<and> fst (close_f f st2) = Inr ()
        \<and> exit_status (fst (update_landing argv env st)) = 1)
   \<and> (open_w file_path (locale_encoding env) st = (Inr f, st1)
        \<and> write_f f new_content st1 = (Inr n, st2)
        \<and> close_f f st2 = (Inl e, st3) \<longrightarrow>
        update_landing argv env st = (Inl e, st3)
        \<and> exit_status (fst (update_landing argv env st)) = 1)"
proof (intro conjI)
  show "exit_status (fst (update_landing argv env st)) = 0 \<longleftrightarrow>
      (\<exists>f st1 n st2 st3. open_w file_path (locale_encoding env) st = (Inr f, st1)
          \<and> write_f f new_content st1 = (Inr n, st2) \<and> close_f f st2 = (Inr (), st3))"
    by (auto simp: update_landing_def with_open_write_def with_open_def file_exit_def
          exit_status_def split: prod.splits sum.splits)
  show "exit_status (fst (update_landing argv env st)) \<noteq> 0 \<longrightarrow>
        exit_status (fst (update_landing argv env st)) = 1
        \<and> (\<exists>e. fst (update_landing argv env st) = Inl e)"
    by (cases "fst (update_landing argv env st)") (simp_all add: exit_status_def)
  show "open_w file_path (locale_encoding env) st = (Inl e, st1) \<longrightarrow>
        update_landing argv env st = (Inl e, st)
        \<and> exit_status (fst (update_landing argv env st)) = 1"
    by (simp add: update_landing_def with_open_write_fail exit_status_def)
  show "open_w file_path (locale_encoding env) st = (Inr f, st1)
        \<and> write_f f new_content st1 = (Inl e, st2) \<longrightarrow>
        update_landing argv env st = (Inl e, snd (close_f f st2))
        \<and> fst (close_f f st2) = Inr ()
        \<and> exit_status (fst (update_landing argv env st)) = 1"
  proof
    assume a: "open_w file_path (locale_encoding env) st = (Inr f, st1)
        \<and> write_f f new_content st1 = (Inl e, st2)"
    then have o: "open_w file_path (locale_encoding env) st = (Inr f, st1)"
      and w: "write_f f new_content st1 = (Inl e, st2)" by simp_all
    have c: "fst (close_f f st2) = Inr ()"
      by (rule close_after_failed_write[OF open_w_handle(1)[OF o] _ w]) simp
    then obtain st3 where c3: "close_f f st2 = (Inr (), st3)"
      by (cases "close_f f st2") simp
    with o w have "update_landing argv env st = (Inl e, st3)"
      by (simp add: update_landing_def with_open_write_def with_open_def file_exit_def)
    with c c3 show "update_landing argv env st = (Inl e, snd (close_f f st2))
        \<and> fst (close_f f st2) = Inr ()
        \<and> exit_status (fst (update_landing argv env st)) = 1"
      by (simp add: exit_status_def)
  qed
  show "open_w file_path (locale_encoding env) st = (Inr f, st1)
        \<and> write_f f new_content st1 = (Inr n, st2)
        \<and> close_f f st2 = (Inl e, st3) \<longrightarrow>
        update_landing argv env st = (Inl e, st3)
        \<and> exit_status (fst (update_landing argv env st)) = 1"
    by (auto simp: update_landing_def with_open_write_def with_open_def file_exit_def
          exit_status_def split: prod.splits sum.splits)
qed

text \<open>
  The witness runs the script five times: with the directory missing (\<open>open_w\<close> raises),
  with the disk nearly full (\<open>write_f\<close> raises), under an ASCII locale (\<open>write_f\<close>
  raises), with the disk nearly full and a large buffer (\<open>write_f\<close> returns and \<open>close_f\<close>
  raises), and with room enough (nothing raises).
\<close>

theorem C6_errors_propagate_witness:
  "update_landing example_argv example_environ scenario = (Inl FileNotFoundError, scenario)
   \<and> exit_status (fst (update_landing example_argv example_environ scenario)) = 1
   \<and> fst (write_f 1 new_content (snd (open_w file_path enc_utf_8 dev_machine_full)))
       = Inl OSError_ENOSPC
   \<and> fst (update_landing example_argv example_environ dev_machine_full) = Inl OSError_ENOSPC
   \<and> exit_status (fst (update_landing example_argv example_environ dev_machine_full)) = 1
   \<and> fst (update_landing example_argv ascii_environ dev_machine) = Inl UnicodeEncodeError
   \<and> exit_status (fst (update_landing example_argv ascii_environ dev_machine)) = 1
   \<and> fst (write_f 1 new_content (snd (open_w file_path enc_utf_8 dev_machine_lazy)))
       = Inr 16882
   \<and> fst (update_landing example_argv example_environ dev_machine_lazy) = Inl OSError_ENOSPC
   \<and> exit_status (fst (update_landing example_argv example_environ dev_machine_lazy)) = 1
   \<and> exit_status (fst (update_landing example_argv example_environ dev_machine)) = 0
   \<and> (\<exists>f st1 n st2 st3. open_w file_path enc_utf_8 dev_machine = (Inr f, st1)
          \<and> write_f f new_content st1 = (Inr n, st2) \<and> close_f f st2 = (Inr (), st3))"
proof -
  have u: "locale_encoding example_environ = enc_utf_8"
    and a: "locale_encoding ascii_environ = enc_ascii"
    by (simp_all add: environ_defs)
  \<comment> \<open>the directory is missing\<close>
  have o1: "open_w file_path (locale_encoding example_environ) scenario
              = (Inl FileNotFoundError, scenario)"
    by (rule scenario_open)
  from C6_errors_propagate[where argv = example_argv and env = example_environ
      and st = scenario and e = FileNotFoundError and ?st1.0 = scenario] o1
  have 1: "update_landing example_argv example_environ scenario
             = (Inl FileNotFoundError, scenario)
           \<and> exit_status (fst (update_landing example_argv example_environ scenario)) = 1"
    by blast
  \<comment> \<open>the disk is nearly full: the write raises\<close>
  define s2 where "s2 = snd (open_w file_path enc_utf_8 dev_machine_full)"
  have o2: "open_w file_path (locale_encoding example_environ) dev_machine_full = (Inr 1, s2)"
    unfolding u s2_def by (rule dev_machine_opened)
  define t2 where "t2 = snd (write_f 1 new_content s2)"
  have w2: "write_f 1 new_content s2 = (Inl OSError_ENOSPC, t2)"
    unfolding s2_def t2_def by (rule pair_fstI) (rule dev_machine_full_write)
  from C6_errors_propagate[where argv = example_argv and env = example_environ
      and st = dev_machine_full and f = 1 and ?st1.0 = s2 and e = OSError_ENOSPC
      and ?st2.0 = t2] o2 w2
  have "update_landing example_argv example_environ dev_machine_full
          = (Inl OSError_ENOSPC, snd (close_f 1 t2))
        \<and> exit_status (fst (update_landing example_argv example_environ dev_machine_full)) = 1"
    by blast
  then have 2: "fst (update_landing example_argv example_environ dev_machine_full)
             = Inl OSError_ENOSPC
           \<and> exit_status (fst (update_landing example_argv example_environ dev_machine_full)) = 1"
    by (auto simp: exit_status_def)
  \<comment> \<open>the locale is ASCII: the write raises\<close>
  define s3 where "s3 = snd (open_w file_path enc_ascii dev_machine)"
  have o3: "open_w file_path (locale_encoding ascii_environ) dev_machine = (Inr 1, s3)"
    unfolding a s3_def by (rule dev_machine_opened)
  have "fst (write_f 1 new_content s3) = Inl UnicodeEncodeError"
    using open_w_handle(1)[OF dev_machine_opened(1), of enc_ascii]
    by (simp add: s3_def write_f_def new_content_not_ascii)
  then have "write_f 1 new_content s3
               = (Inl UnicodeEncodeError, snd (write_f 1 new_content s3))"
    by (rule pair_fstI)
  then obtain t3 where w3: "write_f 1 new_content s3 = (Inl UnicodeEncodeError, t3)" ..
  from C6_errors_propagate[where argv = example_argv and env = ascii_environ
      and st = dev_machine and f = 1 and ?st1.0 = s3 and e = UnicodeEncodeError
      and ?st2.0 = t3] o3 w3
  have "update_landing example_argv ascii_environ dev_machine
          = (Inl UnicodeEncodeError, snd (close_f 1 t3))
        \<and> exit_status (fst (update_landing example_argv ascii_environ dev_machine)) = 1"
    by blast
  then have 3: "fst (update_landing example_argv ascii_environ dev_machine) = Inl UnicodeEncodeError
           \<and> exit_status (fst (update_landing example_argv ascii_environ dev_machine)) = 1"
    by (auto simp: exit_status_def)
  \<comment> \<open>the disk is nearly full and the buffer large: closing raises\<close>
  define s4 where "s4 = snd (open_w file_path enc_utf_8 dev_machine_lazy)"
  define t4 where "t4 = snd (write_f 1 new_content s4)"
  have o4: "open_w file_path (locale_encoding example_environ) dev_machine_lazy = (Inr 1, s4)"
    unfolding u s4_def by (rule dev_machine_opened)
  have w4: "write_f 1 new_content s4 = (Inr 16882, t4)"
    unfolding s4_def t4_def by (rule pair_fstI) (rule dev_machine_lazy_write)
  define u4 where "u4 = snd (close_f 1 t4)"
  have c4: "close_f 1 t4 = (Inl OSError_ENOSPC, u4)"
    unfolding s4_def t4_def u4_def by (rule pair_fstI) (rule dev_machine_lazy_write)
  from C6_errors_propagate[where argv = example_argv and env = example_environ
      and st = dev_machine_lazy and f = 1 and ?st1.0 = s4 and n = 16882 and ?st2.0 = t4
      and e = OSError_ENOSPC and ?st3.0 = u4] o4 w4 c4
  have "update_landing example_argv example_environ dev_machine_lazy = (Inl OSError_ENOSPC, u4)
        \<and> exit_status (fst (update_landing example_argv example_environ dev_machine_lazy)) = 1"
    by blast
  then have 4: "fst (update_landing example_argv example_environ dev_machine_lazy)
             = Inl OSError_ENOSPC
           \<and> exit_status (fst (update_landing example_argv example_environ dev_machine_lazy)) = 1"
    by (auto simp: exit_status_def)
  \<comment> \<open>there is room enough\<close>
  have 5: "exit_status (fst (update_landing example_argv example_environ dev_machine)) = 0"
    by (simp add: dev_machine_utf_8 exit_status_def)
  with C6_errors_propagate[where argv = example_argv and env = example_environ
      and st = dev_machine]
  have 6: "\<exists>f st1 n st2 st3. open_w file_path enc_utf_8 dev_machine = (Inr f, st1)
          \<and> write_f f new_content st1 = (Inr n, st2) \<and> close_f f st2 = (Inr (), st3)"
    unfolding u by blast
  from 1 2 3 4 5 6 dev_machine_full_write dev_machine_lazy_write(1)
  show ?thesis by blast
qed




text \<open>
  Claim C8. The file object is opened right before the write and closed on every way
  out. Whatever the run returns, the open file objects afterwards are those from before.
  When \<open>open_w\<close> returned the descriptor \<open>f\<close>: it was not in use before and is open on
  the destination with an empty buffer; the state the run leaves is the one \<open>close_f\<close>
  leaves after \<open>write_f\<close>, run on the state \<open>open_w\<close> left, whether \<open>write_f\<close> raised or
  not; \<open>f\<close> is closed in it; and the file holds all of the text that the device had
  space for (\<open>close_f\<close> flushes before it releases), or nothing when the text could not
  be encoded.
\<close>

theorem C8_handle_scope:
  "handles (snd (with_open_write P enc T st)) = handles st
   \<and> (open_w P enc st = (Inr f, st1) \<longrightarrow>
        f \<notin> fst ` set (handles st)
        \<and> map_of (handles st1) f = Some \<lparr>name = P, encoding = enc, buffer = []\<rparr>
        \<and> snd (with_open_write P enc T st) = snd (close_f f (snd (write_f f T st1)))
        \<and> map_of (handles (snd (with_open_write P enc T st))) f = None
        \<and> files (snd (with_open_write P enc T st)) P
            = Some (if list_all (encodes enc) T then take (free_space st1) T else []))"
proof (intro conjI impI)
  show "handles (snd (with_open_write P enc T st)) = handles st" by (rule run_handles)
next
  assume ok: "open_w P enc st = (Inr f, st1)"
  show fr: "f \<notin> fst ` set (handles st)" by (rule open_w_handle(4)[OF ok])
  show "map_of (handles st1) f = Some \<lparr>name = P, encoding = enc, buffer = []\<rparr>"
    by (rule open_w_handle(1)[OF ok])
  show "snd (with_open_write P enc T st) = snd (close_f f (snd (write_f f T st1)))"
    by (rule with_open_write_structure[OF ok])
  show "map_of (handles (snd (with_open_write P enc T st))) f = None"
    using fr by (simp add: run_handles map_of_eq_None_iff)
  show "files (snd (with_open_write P enc T st)) P
            = Some (if list_all (encodes enc) T then take (free_space st1) T else [])"
    by (rule run_content[OF ok])
qed

theorem C8_handle_scope_witness:
  "fst (write_f 1 scenario_text (snd (open_w scenario_path enc_utf_8 scenario_full)))
     = Inl OSError_ENOSPC
   \<and> fst (with_open_write scenario_path enc_utf_8 scenario_text scenario_full)
       = Inl OSError_ENOSPC
   \<and> handles (snd (with_open_write scenario_path enc_utf_8 scenario_text scenario_full)) = []
   \<and> map_of (handles (snd (with_open_write scenario_path enc_utf_8 scenario_text scenario_full)))
        1 = None
   \<and> files (snd (with_open_write scenario_path enc_utf_8 scenario_text scenario_full))
        scenario_path
       = Some ''hello''"
proof -
  have o: "open_w scenario_path enc_utf_8 scenario_full
             = (Inr 1, snd (open_w scenario_path enc_utf_8 scenario_full))"
    by (rule prod_eqI) (simp_all add: open_w_def dirname_def unused_fd_def scenario_defs)
  have w: "fst (write_f 1 scenario_text (snd (open_w scenario_path enc_utf_8 scenario_full)))
             = Inl OSError_ENOSPC"
    by (simp add: run_defs scenario_defs)
  have r: "fst (with_open_write scenario_path enc_utf_8 scenario_text scenario_full)
             = Inl OSError_ENOSPC"
    by (simp add: run_defs scenario_defs)
  have h: "handles scenario_full = []"
    and s: "take (free_space (snd (open_w scenario_path enc_utf_8 scenario_full))) scenario_text
              = ''hello''"
    and l: "list_all (encodes enc_utf_8) scenario_text"
    by (simp_all add: open_w_def dirname_def unused_fd_def scenario_defs enc_utf_8_def)
  from C8_handle_scope[where P = scenario_path and enc = enc_utf_8 and T = scenario_text
      and st = scenario_full and f = 1
      and ?st1.0 = "snd (open_w scenario_path enc_utf_8 scenario_full)"] o
  have "handles (snd (with_open_write scenario_path enc_utf_8 scenario_text scenario_full))
          = handles scenario_full
        \<and> map_of
            (handles (snd (with_open_write scenario_path enc_utf_8 scenario_text scenario_full)))
            1 = None
        \<and> files (snd (with_open_write scenario_path enc_utf_8 scenario_text scenario_full))
            scenario_path
          = Some (if list_all (encodes enc_utf_8) scenario_text
                  then take (free_space (snd (open_w scenario_path enc_utf_8 scenario_full)))
                         scenario_text
                  else [])"
    by blast
  with w r h s l show ?thesis by simp
qed

text \<open>
  Claim C9. A run of the script leaves the set of directories as it was and changes no
  file other than the one at \<open>file_path\<close>: every other path holds, and reads back as,
  what it did before, whether the run raised or not.
\<close>

theorem C9_frame:
  "dirs (snd (update_landing argv env st)) = dirs st
   \<and> (\<forall>Q. Q \<noteq> file_path \<longrightarrow>
          files (snd (update_landing argv env st)) Q = files st Q
          \<and> read_text Q (snd (update_landing argv env st)) = read_text Q st)"
  by (simp add: update_landing_def run_dirs run_other read_text_def)

theorem C9_frame_witness:
  "''/etc/hosts'' \<noteq> file_path
   \<and> fst (update_landing example_argv example_environ dev_machine) = Inr ()
   \<and> files (snd (update_landing example_argv example_environ dev_machine)) ''/etc/hosts''
       = Some ''127.0.0.1 localhost''
   \<and> fst (update_landing example_argv example_environ scenario) = Inl FileNotFoundError
   \<and> files (snd (update_landing example_argv example_environ scenario)) ''/etc/hosts'' = None"
proof -
  have n: "''/etc/hosts'' \<noteq> file_path" by (simp add: file_path_def)
  have a: "files dev_machine ''/etc/hosts'' = Some ''127.0.0.1 localhost''"
    using n by (simp add: dev_machine_def)
  have b: "files scenario ''/etc/hosts'' = None" by (simp add: scenario_def)
  from C9_frame[where argv = example_argv and env = example_environ and st = dev_machine] n a
  have 1: "files (snd (update_landing example_argv example_environ dev_machine)) ''/etc/hosts''
       = Some ''127.0.0.1 localhost''" by simp
  from C9_frame[where argv = example_argv and env = example_environ and st = scenario] n b
  have 2: "files (snd (update_landing example_argv example_environ scenario)) ''/etc/hosts'' = None"
    by simp
  from n 1 2 show ?thesis by (simp add: dev_machine_utf_8 scenario_script)
qed

text \<open>
  Claim C10. The destination constant is a non-empty absolute path and the text constant
  is a non-empty string, so the two inputs of the \<^verbatim>\<open>with\<close> block are well-formed on
  every run.
\<close>

theorem C10_constants_wellformed:
  "file_path \<noteq> [] \<and> isabs file_path \<and> new_content \<noteq> []"
proof (intro conjI)
  show "file_path \<noteq> []" by (simp add: file_path_def)
  show "isabs file_path" by (simp add: file_path_def isabs_def)
  have "length new_content \<noteq> 0" by (simp add: length_new_content)
  then show "new_content \<noteq> []" by simp
qed

end
